theory Spec2Isabelle
  imports Complex_Main
begin

section \<open>Python values and JSON documents\<close>

text \<open>
  The script \<^verbatim>\<open>scripts/ingest.py\<close> reads a CSV into a pandas DataFrame, validates the
  column names, rewrites datetime columns as text and hands three Python objects to
  \<^verbatim>\<open>json.dump\<close>. The model below follows the script function by function. Values of
  the libraries the script calls (pandas, json, os.path) are modelled by what their
  documentation and sources state for the calls the script makes.

  A timestamp is the wall-clock reading pandas keeps for a \<^verbatim>\<open>datetime64[ns]\<close> value
  without time zone. Python floats are modelled by their exact value, with \<^verbatim>\<open>nan\<close> as
  a value of its own; no claim depends on rounding.
\<close>

record timestamp =
  year :: nat
  month :: nat
  day :: nat
  hour :: nat
  minute :: nat
  second :: nat
  nanosecond :: nat

text \<open>
  The Python objects the script passes around. \<^verbatim>\<open>json.dump\<close> writes \<open>PyNone\<close> as
  \<^verbatim>\<open>null\<close>, \<open>PyNaN\<close> as the bare token \<^verbatim>\<open>NaN\<close> (its default
  \<^verbatim>\<open>allow_nan=True\<close>), a list as an array and a dict as an object whose keys keep
  their insertion order. It raises \<^verbatim>\<open>TypeError\<close> on a pandas timestamp.
\<close>

datatype pyval =
    PyNone
  | PyBool bool
  | PyInt int
  | PyFloat rat
  | PyNaN
  | PyStr string
  | PyTimestamp timestamp
  | PyNaT
  | PyList "pyval list"
  | PyDict "(string \<times> pyval) list"

datatype error =
    SourceUnavailable
  | ParseError
  | ExitMissingColumns "string list"
  | ExitDuplicatedColumns
  | KeyError
  | AttributeError
  | TypeError

text \<open>
  \<open>ExitMissingColumns missing\<close> is
  \<^verbatim>\<open>SystemExit(f"ERROR: Missing required columns: {missing}")\<close> and
  \<open>ExitDuplicatedColumns\<close> is
  \<^verbatim>\<open>SystemExit("ERROR: duplicated column names detected in CSV")\<close>. The first two
  errors stand for whatever \<^verbatim>\<open>pd.read_csv\<close> raises. Every uncaught exception, and
  \<^verbatim>\<open>SystemExit\<close> with a message, ends the process with status 1.
\<close>

definition exit_status :: "error + unit \<Rightarrow> nat" where
  "exit_status r = (case r of Inl _ \<Rightarrow> 1 | Inr _ \<Rightarrow> 0)"

section \<open>Strings\<close>

fun startswith :: "string \<Rightarrow> string \<Rightarrow> bool" where
  "startswith s [] = True"
| "startswith [] (p # ps) = False"
| "startswith (c # s) (p # ps) = (c = p \<and> startswith s ps)"

text \<open>\<open>py_in p s\<close> is Python's \<^verbatim>\<open>p in s\<close> on strings: \<open>p\<close> occurs in \<open>s\<close>.\<close>

fun py_in :: "string \<Rightarrow> string \<Rightarrow> bool" where
  "py_in p [] = (p = [])"
| "py_in p (c # s) = (startswith (c # s) p \<or> py_in p s)"

text \<open>\<^verbatim>\<open>col.replace("_", " ")\<close>\<close>

definition replace_underscores :: "string \<Rightarrow> string" where
  "replace_underscores s = map (\<lambda>c. if c = CHR ''_'' then CHR '' '' else c) s"

text \<open>
  \<^verbatim>\<open>str.title()\<close> on ASCII text: a letter that follows a letter is lowered, any other
  letter is raised, everything else is kept and starts a new word. The flag of
  \<open>title_from\<close> is CPython's \<^verbatim>\<open>previous_is_cased\<close>.
\<close>

definition is_upper :: "char \<Rightarrow> bool" where
  "is_upper c = ((65::nat) \<le> of_char c \<and> of_char c \<le> (90::nat))"

definition is_lower :: "char \<Rightarrow> bool" where
  "is_lower c = ((97::nat) \<le> of_char c \<and> of_char c \<le> (122::nat))"

definition is_cased :: "char \<Rightarrow> bool" where
  "is_cased c = (is_upper c \<or> is_lower c)"

definition to_upper :: "char \<Rightarrow> char" where
  "to_upper c = (if is_lower c then char_of (of_char c - (32::nat)) else c)"

definition to_lower :: "char \<Rightarrow> char" where
  "to_lower c = (if is_upper c then char_of (of_char c + (32::nat)) else c)"

fun title_from :: "bool \<Rightarrow> string \<Rightarrow> string" where
  "title_from prev [] = []"
| "title_from prev (c # s) =
     (if is_lower c then (if prev then c else to_upper c) # title_from True s
      else if is_upper c then (if prev then to_lower c else c) # title_from True s
      else c # title_from False s)"

definition title :: "string \<Rightarrow> string" where
  "title s = title_from False s"

text \<open>\<^verbatim>\<open>os.path.join(a, b)\<close> and \<^verbatim>\<open>os.path.basename(p)\<close> on POSIX paths.\<close>

definition path_join :: "string \<Rightarrow> string \<Rightarrow> string" where
  "path_join a b =
     (if startswith b ''/'' then b
      else if a = [] \<or> last a = CHR ''/'' then a @ b
      else a @ ''/'' @ b)"

definition basename :: "string \<Rightarrow> string" where
  "basename p = rev (takeWhile (\<lambda>c. c \<noteq> CHR ''/'') (rev p))"

text \<open>Decimal digits, and a number left-padded with zeros as \<^verbatim>\<open>strftime\<close> prints it.\<close>

definition digit_char :: "nat \<Rightarrow> char" where
  "digit_char d = ''0123456789'' ! (d mod 10)"

definition pad2 :: "nat \<Rightarrow> string" where
  "pad2 n = [digit_char (n div 10), digit_char n]"

definition pad4 :: "nat \<Rightarrow> string" where
  "pad4 n = [digit_char (n div 1000), digit_char (n div 100), digit_char (n div 10), digit_char n]"

text \<open>
  \<^verbatim>\<open>strftime("%Y-%m-%dT%H:%M:%SZ")\<close>: the fields of the timestamp as read, the
  fraction of the second dropped, and a literal \<^verbatim>\<open>Z\<close> appended.
\<close>

definition strftime_iso :: "timestamp \<Rightarrow> string" where
  "strftime_iso t =
     pad4 (year t) @ ''-'' @ pad2 (month t) @ ''-'' @ pad2 (day t) @ ''T'' @
     pad2 (hour t) @ '':'' @ pad2 (minute t) @ '':'' @ pad2 (second t) @ ''Z''"

section \<open>DataFrames\<close>

text \<open>
  A column of a DataFrame is a pandas Series: values of one dtype. Only float,
  datetime and object columns can hold a missing value: \<^verbatim>\<open>NaN\<close> in a float column
  and \<^verbatim>\<open>NaT\<close> in a datetime column (\<open>None\<close> below), and \<^verbatim>\<open>NaN\<close> or
  \<^verbatim>\<open>None\<close> in an object column, whose other values are text or truth values. These
  are the dtypes \<^verbatim>\<open>pd.read_csv\<close> yields, with or without date parsing.
\<close>

datatype obj = ObjStr string | ObjBool bool | ObjNaN | ObjNone

datatype series =
    Int64 "int list"
  | Float64 "rat option list"
  | Bool "bool list"
  | Datetime64 "timestamp option list"
  | Object "obj list"

record column =
  cname :: string
  cvalues :: series

record dataframe =
  nrows :: nat
  columns :: "column list"

text \<open>\<^verbatim>\<open>str(series.dtype)\<close>\<close>

fun dtype_str :: "series \<Rightarrow> string" where
  "dtype_str (Int64 _) = ''int64''"
| "dtype_str (Float64 _) = ''float64''"
| "dtype_str (Bool _) = ''bool''"
| "dtype_str (Datetime64 _) = ''datetime64[ns]''"
| "dtype_str (Object _) = ''object''"

text \<open>The values of a series as Python objects, as \<^verbatim>\<open>to_dict\<close> boxes them.\<close>

fun box_obj :: "obj \<Rightarrow> pyval" where
  "box_obj (ObjStr s) = PyStr s"
| "box_obj (ObjBool b) = PyBool b"
| "box_obj ObjNaN = PyNaN"
| "box_obj ObjNone = PyNone"

fun series_values :: "series \<Rightarrow> pyval list" where
  "series_values (Int64 xs) = map PyInt xs"
| "series_values (Float64 xs) = map (\<lambda>x. case x of None \<Rightarrow> PyNaN | Some r \<Rightarrow> PyFloat r) xs"
| "series_values (Bool xs) = map PyBool xs"
| "series_values (Datetime64 xs) = map (\<lambda>x. case x of None \<Rightarrow> PyNaT | Some t \<Rightarrow> PyTimestamp t) xs"
| "series_values (Object xs) = map box_obj xs"

definition series_len :: "series \<Rightarrow> nat" where
  "series_len s = length (series_values s)"

text \<open>The invariant of a DataFrame: every column has one value per row.\<close>

definition wf_df :: "dataframe \<Rightarrow> bool" where
  "wf_df df = list_all (\<lambda>c. series_len (cvalues c) = nrows df) (columns df)"

text \<open>\<^verbatim>\<open>df.columns\<close>, and \<^verbatim>\<open>df.shape\<close>\<close>

definition df_columns :: "dataframe \<Rightarrow> string list" where
  "df_columns df = map cname (columns df)"

definition shape :: "dataframe \<Rightarrow> nat \<times> nat" where
  "shape df = (nrows df, length (columns df))"

text \<open>
  \<^verbatim>\<open>Index.duplicated()\<close> marks every name that already occurred to its left
  (\<^verbatim>\<open>keep='first'\<close>); \<^verbatim>\<open>.any()\<close> asks whether some mark is set.
\<close>

fun duplicated_from :: "string list \<Rightarrow> string list \<Rightarrow> bool list" where
  "duplicated_from seen [] = []"
| "duplicated_from seen (x # xs) = (x \<in> set seen) # duplicated_from (x # seen) xs"

definition duplicated :: "string list \<Rightarrow> bool list" where
  "duplicated xs = duplicated_from [] xs"

definition any :: "bool list \<Rightarrow> bool" where
  "any bs = list_ex (\<lambda>b. b) bs"

text \<open>
  \<^verbatim>\<open>df[c]\<close> is a Series when exactly one column is named \<open>c\<close>. An absent name
  raises \<^verbatim>\<open>KeyError\<close>; a repeated name selects the DataFrame of the columns that
  carry it. \<^verbatim>\<open>df[c] = s\<close> replaces the values of the column named \<open>c\<close>.
\<close>

datatype selection = OneSeries series | SubFrame "column list"

definition getitem :: "dataframe \<Rightarrow> string \<Rightarrow> error + selection" where
  "getitem df c =
     (case filter (\<lambda>x. cname x = c) (columns df) of
        [] \<Rightarrow> Inl KeyError
      | [x] \<Rightarrow> Inr (OneSeries (cvalues x))
      | xs \<Rightarrow> Inr (SubFrame xs))"

definition setitem :: "dataframe \<Rightarrow> string \<Rightarrow> series \<Rightarrow> dataframe" where
  "setitem df c s =
     df\<lparr>columns := map (\<lambda>x. if cname x = c then x\<lparr>cvalues := s\<rparr> else x) (columns df)\<rparr>"

text \<open>
  \<^verbatim>\<open>pd.api.types.is_datetime64_any_dtype\<close> on a Series. On a DataFrame, which has
  no dtype of its own, the function returns \<^verbatim>\<open>False\<close>.
\<close>

fun is_datetime64_any_dtype :: "series \<Rightarrow> bool" where
  "is_datetime64_any_dtype (Datetime64 _) = True"
| "is_datetime64_any_dtype _ = False"

text \<open>
  \<^verbatim>\<open>series.dt.strftime(fmt)\<close>: an object series of the formatted texts, with
  \<^verbatim>\<open>NaN\<close> where the value was \<^verbatim>\<open>NaT\<close>. The \<^verbatim>\<open>.dt\<close> accessor raises
  \<^verbatim>\<open>AttributeError\<close> on a series that is not datetime-like.
\<close>

definition strftime_value :: "timestamp option \<Rightarrow> obj" where
  "strftime_value x = (case x of None \<Rightarrow> ObjNaN | Some t \<Rightarrow> ObjStr (strftime_iso t))"

fun dt_strftime :: "series \<Rightarrow> error + series" where
  "dt_strftime (Datetime64 xs) = Inr (Object (map strftime_value xs))"
| "dt_strftime _ = Inl AttributeError"

text \<open>\<^verbatim>\<open>pd.isnull\<close> on a value of an object column.\<close>

fun isnull :: "obj \<Rightarrow> bool" where
  "isnull ObjNone = True"
| "isnull ObjNaN = True"
| "isnull (ObjStr _) = False"
| "isnull (ObjBool _) = False"

text \<open>
  \<^verbatim>\<open>df.where(pd.notnull(df), None)\<close>. pandas works column by column. In an object
  column each missing value is replaced by \<open>None\<close>. For every other dtype pandas (from
  version 1.3 on) reads the scalar \<open>None\<close> as the missing value of that dtype
  (\<^verbatim>\<open>Block._standardize_fill_value\<close>), so the column keeps its dtype and a missing
  float stays \<^verbatim>\<open>NaN\<close>.
\<close>

fun where_series :: "series \<Rightarrow> series" where
  "where_series (Object xs) = Object (map (\<lambda>x. if isnull x then ObjNone else x) xs)"
| "where_series s = s"

definition where_notnull_none :: "dataframe \<Rightarrow> dataframe" where
  "where_notnull_none df =
     df\<lparr>columns := map (\<lambda>c. c\<lparr>cvalues := where_series (cvalues c)\<rparr>) (columns df)\<rparr>"

text \<open>
  A Python dict keeps its keys in insertion order; storing under a key that is present
  overwrites the value in place.
\<close>

fun dict_setitem :: "(string \<times> pyval) list \<Rightarrow> string \<Rightarrow> pyval \<Rightarrow> (string \<times> pyval) list" where
  "dict_setitem [] k v = [(k, v)]"
| "dict_setitem ((k', v') # d) k v =
     (if k' = k then (k, v) # d else (k', v') # dict_setitem d k v)"

definition py_dict :: "(string \<times> pyval) list \<Rightarrow> (string \<times> pyval) list" where
  "py_dict kvs = foldl (\<lambda>d (k, v). dict_setitem d k v) [] kvs"

text \<open>\<^verbatim>\<open>df.to_dict(orient="records")\<close>: one dict per row, keyed by column name.\<close>

definition to_dict_records :: "dataframe \<Rightarrow> pyval list" where
  "to_dict_records df =
     map (\<lambda>i. PyDict (py_dict (map (\<lambda>c. (cname c, series_values (cvalues c) ! i)) (columns df))))
       [0 ..< nrows df]"

section \<open>The script\<close>

text \<open>
  The command line after \<^verbatim>\<open>argparse\<close>: every option of the parser with its default
  filled in (\<^verbatim>\<open>docs\<close> for the output folder, the empty list and empty strings
  otherwise).
\<close>

record args =
  input :: string
  out :: string
  required_columns :: "string list"
  citation :: string
  license :: string
  doi :: string
  contact :: string
  notes_arg :: string

text \<open>
  What a run takes from outside: the pandas reader, a function from the path or URL to
  the DataFrame it loads or the error it raises, and the reading of the clock,
  \<^verbatim>\<open>datetime.utcnow().isoformat()\<close>.
\<close>

record env =
  pd_read_csv :: "string \<Rightarrow> error + dataframe"
  utcnow_isoformat :: string

text \<open>
  The files of the output folder. \<^verbatim>\<open>json.dump\<close> is modelled by the object it
  serialises: a file holds the document written to it. When \<^verbatim>\<open>json.dump\<close> raises
  on a value it cannot serialise, the file is left opened and cut short. Directories,
  failures of the file system and the lines printed to standard output are not modelled.
\<close>

datatype file_content = Document pyval | Truncated

type_synonym fs = "string \<Rightarrow> file_content option"

fun json_serializable :: "pyval \<Rightarrow> bool" where
  "json_serializable (PyTimestamp _) = False"
| "json_serializable PyNaT = False"
| "json_serializable (PyList xs) = (\<forall>x \<in> set xs. json_serializable x)"
| "json_serializable (PyDict kvs) = (\<forall>(k, v) \<in> set kvs. json_serializable v)"
| "json_serializable _ = True"

text \<open>Lines 29-38.\<close>

definition read_csv :: "env \<Rightarrow> string \<Rightarrow> error + dataframe" where
  "read_csv e path_or_url =
     (if startswith path_or_url ''http://'' \<or> startswith path_or_url ''https://''
      then pd_read_csv e path_or_url
      else pd_read_csv e path_or_url)"

text \<open>
  Lines 40-66. \<open>sorter_of\<close> is the chain of tests on the dtype's name; the parameter
  \<^verbatim>\<open>max_width\<close> is never read. Where \<^verbatim>\<open>df[col]\<close> is a DataFrame,
  \<^verbatim>\<open>.dtype\<close> raises \<^verbatim>\<open>AttributeError\<close>.
\<close>

definition sorter_of :: "string \<Rightarrow> string" where
  "sorter_of dtype =
     (if py_in ''int'' dtype \<or> py_in ''float'' dtype then ''number''
      else if py_in ''datetime'' dtype \<or> py_in ''date'' dtype then ''date''
      else ''string'')"

definition col_def :: "string \<Rightarrow> string \<Rightarrow> pyval" where
  "col_def col sorter = PyDict
     [(''title'', PyStr (title (replace_underscores col))),
      (''field'', PyStr col),
      (''headerFilter'', PyBool True),
      (''hozAlign'', PyStr ''left''),
      (''sorter'', PyStr sorter),
      (''download'', PyBool True),
      (''width'', PyNone)]"

fun infer_loop :: "dataframe \<Rightarrow> string list \<Rightarrow> error + pyval list" where
  "infer_loop df [] = Inr []"
| "infer_loop df (col # cols) =
     (case getitem df col of
        Inl e \<Rightarrow> Inl e
      | Inr (SubFrame _) \<Rightarrow> Inl AttributeError
      | Inr (OneSeries s) \<Rightarrow>
          (case infer_loop df cols of
             Inl e \<Rightarrow> Inl e
           | Inr defs \<Rightarrow> Inr (col_def col (sorter_of (dtype_str s)) # defs)))"

definition infer_tabulator_columns :: "dataframe \<Rightarrow> error + pyval list" where
  "infer_tabulator_columns df = infer_loop df (df_columns df)"

text \<open>Lines 68-84. \<^verbatim>\<open>x or ""\<close> on a string is the string itself.\<close>

definition or_empty :: "string \<Rightarrow> string" where
  "or_empty s = (if s = [] then [] else s)"

definition make_metadata :: "env \<Rightarrow> args \<Rightarrow> dataframe \<Rightarrow> pyval" where
  "make_metadata e a df = PyDict
     [(''generated_at'', PyStr (utcnow_isoformat e @ ''Z'')),
      (''source_filename'', PyStr (basename (input a))),
      (''n_rows'', PyInt (int (fst (shape df)))),
      (''n_columns'', PyInt (int (snd (shape df)))),
      (''citation'', PyStr (or_empty (citation a))),
      (''license'', PyStr (or_empty (license a))),
      (''doi'', PyStr (or_empty (doi a))),
      (''contact'', PyStr (or_empty (contact a))),
      (''notes'', PyStr (or_empty (notes_arg a)))]"

text \<open>Lines 86-89.\<close>

definition write_json :: "pyval \<Rightarrow> string \<Rightarrow> fs \<Rightarrow> fs \<times> (error + unit)" where
  "write_json obj outpath files =
     (if json_serializable obj then (files(outpath \<mapsto> Document obj), Inr ())
      else (files(outpath \<mapsto> Truncated), Inl TypeError))"

text \<open>
  Lines 110-112: the required names the table lacks, in the order they were given, and
  the exit when there is one.
\<close>

definition missing_columns :: "string list \<Rightarrow> dataframe \<Rightarrow> string list" where
  "missing_columns required df = filter (\<lambda>c. c \<notin> set (df_columns df)) required"

definition check_required_columns :: "string list \<Rightarrow> dataframe \<Rightarrow> error + dataframe" where
  "check_required_columns required df =
     (let missing = missing_columns required df
      in if missing \<noteq> [] then Inl (ExitMissingColumns missing) else Inr df)"

text \<open>Lines 116-117.\<close>

definition check_duplicated_columns :: "dataframe \<Rightarrow> error + dataframe" where
  "check_duplicated_columns df =
     (if any (duplicated (df_columns df)) then Inl ExitDuplicatedColumns else Inr df)"

text \<open>Lines 121-123: the loop over the column names, updating the DataFrame in place.\<close>

fun normalize_loop :: "string list \<Rightarrow> dataframe \<Rightarrow> error + dataframe" where
  "normalize_loop [] df = Inr df"
| "normalize_loop (c # cs) df =
     (case getitem df c of
        Inl e \<Rightarrow> Inl e
      | Inr (SubFrame _) \<Rightarrow> normalize_loop cs df
      | Inr (OneSeries s) \<Rightarrow>
          if is_datetime64_any_dtype s
          then (case dt_strftime s of
                  Inl e \<Rightarrow> Inl e
                | Inr s' \<Rightarrow> normalize_loop cs (setitem df c s'))
          else normalize_loop cs df)"

definition normalize_datetimes :: "dataframe \<Rightarrow> error + dataframe" where
  "normalize_datetimes df = normalize_loop (df_columns df) df"

text \<open>
  Lines 126-137: the three documents, written in this order from the DataFrame the
  loop above has updated.
\<close>

definition data_out :: "args \<Rightarrow> string" where
  "data_out a = path_join (out a) ''data.json''"

definition columns_out :: "args \<Rightarrow> string" where
  "columns_out a = path_join (out a) ''columns.json''"

definition meta_out :: "args \<Rightarrow> string" where
  "meta_out a = path_join (out a) ''metadata.json''"

definition emit :: "env \<Rightarrow> args \<Rightarrow> dataframe \<Rightarrow> fs \<Rightarrow> fs \<times> (error + unit)" where
  "emit e a df files =
     (let data_records = to_dict_records (where_notnull_none df)
      in case write_json (PyList data_records) (data_out a) files of
           (files1, Inl err) \<Rightarrow> (files1, Inl err)
         | (files1, Inr _) \<Rightarrow>
             (case infer_tabulator_columns df of
                Inl err \<Rightarrow> (files1, Inl err)
              | Inr columns_def \<Rightarrow>
                  (case write_json (PyList columns_def) (columns_out a) files1 of
                     (files2, Inl err) \<Rightarrow> (files2, Inl err)
                   | (files2, Inr _) \<Rightarrow>
                       write_json (make_metadata e a df) (meta_out a) files2)))"

text \<open>Lines 109-137, from the DataFrame that was read.\<close>

definition process :: "env \<Rightarrow> args \<Rightarrow> dataframe \<Rightarrow> fs \<Rightarrow> fs \<times> (error + unit)" where
  "process e a df files =
     (case check_required_columns (required_columns a) df of
        Inl err \<Rightarrow> (files, Inl err)
      | Inr df1 \<Rightarrow>
          (case check_duplicated_columns df1 of
             Inl err \<Rightarrow> (files, Inl err)
           | Inr df2 \<Rightarrow>
               (case normalize_datetimes df2 of
                  Inl err \<Rightarrow> (files, Inl err)
                | Inr df3 \<Rightarrow> emit e a df3 files)))"

text \<open>Lines 94-139.\<close>

definition main :: "env \<Rightarrow> args \<Rightarrow> fs \<Rightarrow> fs \<times> (error + unit)" where
  "main e a files =
     (case read_csv e (input a) of
        Inl err \<Rightarrow> (files, Inl err)
      | Inr df \<Rightarrow> process e a df files)"

section \<open>The pandas reader\<close>

text \<open>
  \<^verbatim>\<open>pd.read_csv(path)\<close> as the script calls it, with every argument at its default,
  on plain CSV text: lines ended by a newline, fields separated by commas, no quoting,
  a header of non-empty names none of which has the form \<^verbatim>\<open>X.1\<close>, \<^verbatim>\<open>X.2\<close>, ...
  of another, no row with more fields than the header, numbers written with digits, an
  optional sign and an optional decimal point. As the documentation of pandas 2
  states: blank lines are skipped; the first line is the header; a header name that
  repeats is renamed \<^verbatim>\<open>X.1\<close>, \<^verbatim>\<open>X.2\<close>, ... so that the column names differ; the
  fields listed in \<open>na_values\<close> are missing values; a column whose fields are all
  integers is \<^verbatim>\<open>int64\<close>, one whose fields are numbers or missing is \<^verbatim>\<open>float64\<close>,
  one of truth values is \<^verbatim>\<open>bool\<close> (\<^verbatim>\<open>object\<close> when some are missing), and any
  other column is \<^verbatim>\<open>object\<close> and keeps its text. Dates are not parsed
  (\<^verbatim>\<open>parse_dates\<close> is off), so no column is \<^verbatim>\<open>datetime64\<close>.
\<close>

fun split_on :: "char \<Rightarrow> string \<Rightarrow> string list" where
  "split_on sep [] = [[]]"
| "split_on sep (c # s) =
     (if c = sep then [] # split_on sep s
      else (case split_on sep s of
              [] \<Rightarrow> [[c]]
            | w # ws \<Rightarrow> (c # w) # ws))"

definition is_digit :: "char \<Rightarrow> bool" where
  "is_digit c = ((48::nat) \<le> of_char c \<and> of_char c \<le> (57::nat))"

definition digits_value :: "string \<Rightarrow> nat" where
  "digits_value s = foldl (\<lambda>n c. 10 * n + (of_char c - 48)) 0 s"

definition parse_nat :: "string \<Rightarrow> nat option" where
  "parse_nat s = (if s \<noteq> [] \<and> list_all is_digit s then Some (digits_value s) else None)"

fun parse_int :: "string \<Rightarrow> int option" where
  "parse_int [] = None"
| "parse_int (c # s) =
     (if c = CHR ''-'' then map_option (\<lambda>n. - int n) (parse_nat s)
      else if c = CHR ''+'' then map_option int (parse_nat s)
      else map_option int (parse_nat (c # s)))"

definition parse_decimal :: "string \<Rightarrow> rat option" where
  "parse_decimal s =
     (case split_on CHR ''.'' s of
        [ip] \<Rightarrow> map_option of_nat (parse_nat ip)
      | [ip, fp] \<Rightarrow>
          (if ip = [] \<and> fp = [] \<or> \<not> list_all is_digit (ip @ fp) then None
           else Some (of_nat (digits_value ip) + of_nat (digits_value fp) / 10 ^ length fp))
      | _ \<Rightarrow> None)"

fun parse_float :: "string \<Rightarrow> rat option" where
  "parse_float [] = None"
| "parse_float (c # s) =
     (if c = CHR ''-'' then map_option uminus (parse_decimal s)
      else if c = CHR ''+'' then parse_decimal s
      else parse_decimal (c # s))"

definition na_values :: "string list" where
  "na_values = ['''', ''#N/A'', ''#N/A N/A'', ''#NA'', ''-1.#IND'', ''-1.#QNAN'', ''-NaN'',
     ''-nan'', ''1.#IND'', ''1.#QNAN'', ''<NA>'', ''N/A'', ''NA'', ''NULL'', ''NaN'', ''None'',
     ''n/a'', ''nan'', ''null'']"

definition parse_bool :: "string \<Rightarrow> bool option" where
  "parse_bool s =
     (if s \<in> set [''True'', ''TRUE'', ''true''] then Some True
      else if s \<in> set [''False'', ''FALSE'', ''false''] then Some False
      else None)"

definition infer_series :: "string list \<Rightarrow> series" where
  "infer_series texts =
     (if texts = [] then Object []
      else case those (map parse_int texts) of
        Some ints \<Rightarrow> Int64 ints
      | None \<Rightarrow>
          (case those (map (\<lambda>f. if f \<in> set na_values then Some None
                                  else map_option Some (parse_float f)) texts) of
             Some floats \<Rightarrow> Float64 floats
           | None \<Rightarrow>
               (case those (map parse_bool texts) of
                  Some bools \<Rightarrow> Bool bools
                | None \<Rightarrow>
                    (case those (map (\<lambda>f. if f \<in> set na_values then Some ObjNaN
                                            else map_option ObjBool (parse_bool f)) texts) of
                       Some objs \<Rightarrow> Object objs
                     | None \<Rightarrow>
                         Object (map (\<lambda>f. if f \<in> set na_values then ObjNaN else ObjStr f)
                                   texts)))))"

fun decimal :: "nat \<Rightarrow> string" where
  "decimal n = (if n < 10 then [digit_char n] else decimal (n div 10) @ [digit_char n])"

fun mangle_dupe_cols :: "string list \<Rightarrow> string list \<Rightarrow> string list" where
  "mangle_dupe_cols seen [] = []"
| "mangle_dupe_cols seen (n # ns) =
     (let k = count_list seen n
      in (if k = 0 then n else n @ ''.'' @ decimal k) # mangle_dupe_cols (n # seen) ns)"

definition field_at :: "nat \<Rightarrow> string list \<Rightarrow> string" where
  "field_at j row = (if j < length row then row ! j else [])"

definition parse_csv :: "string \<Rightarrow> error + dataframe" where
  "parse_csv text =
     (case filter (\<lambda>l. l \<noteq> []) (split_on CHR 0x0A text) of
        [] \<Rightarrow> Inl ParseError
      | header # body \<Rightarrow>
          (let names = mangle_dupe_cols [] (split_on CHR '','' header);
               rows = map (split_on CHR '','') body
           in if list_ex (\<lambda>r. length names < length r) rows then Inl ParseError
              else Inr \<lparr>nrows = length rows,
                        columns = map (\<lambda>j. \<lparr>cname = names ! j,
                                               cvalues = infer_series (map (field_at j) rows)\<rparr>)
                                    [0 ..< length names]\<rparr>))"

text \<open>
  The reader over a store of sources: the text found at each local path or URL. A
  source that is absent cannot be opened.
\<close>

definition pandas_read_csv :: "(string \<Rightarrow> string option) \<Rightarrow> string \<Rightarrow> error + dataframe" where
  "pandas_read_csv sources path =
     (case sources path of None \<Rightarrow> Inl SourceUnavailable | Some text \<Rightarrow> parse_csv text)"

section \<open>What the properties are stated with\<close>

text \<open>
  What the loop of lines 121-123 is meant to do to one column, and to the DataFrame: a
  datetime column becomes an object column of formatted texts, any other column stays.
\<close>

definition normalized_column :: "column \<Rightarrow> column" where
  "normalized_column c =
     (case cvalues c of
        Datetime64 xs \<Rightarrow> c\<lparr>cvalues := Object (map strftime_value xs)\<rparr>
      | _ \<Rightarrow> c)"

definition normalized :: "dataframe \<Rightarrow> dataframe" where
  "normalized df = df\<lparr>columns := map normalized_column (columns df)\<rparr>"

text \<open>The schema entry of one column, and the record of row \<open>i\<close>.\<close>

definition column_schema :: "column \<Rightarrow> pyval" where
  "column_schema c = col_def (cname c) (sorter_of (dtype_str (cvalues c)))"

definition row_record :: "dataframe \<Rightarrow> nat \<Rightarrow> (string \<times> pyval) list" where
  "row_record df i =
     map (\<lambda>c. (cname c, series_values (where_series (cvalues c)) ! i)) (columns df)"





text \<open>Reading a written document: a key of a JSON object, the sorters of a schema.\<close>

definition document_get :: "file_content option \<Rightarrow> string \<Rightarrow> pyval option" where
  "document_get f k = (case f of Some (Document (PyDict kvs)) \<Rightarrow> map_of kvs k | _ \<Rightarrow> None)"

definition entry_sorter :: "pyval \<Rightarrow> pyval" where
  "entry_sorter d =
     (case d of
        PyDict kvs \<Rightarrow> (case map_of kvs ''sorter'' of Some v \<Rightarrow> v | None \<Rightarrow> PyNone)
      | _ \<Rightarrow> PyNone)"

definition document_sorters :: "file_content option \<Rightarrow> pyval list" where
  "document_sorters f =
     (case f of Some (Document (PyList defs)) \<Rightarrow> map entry_sorter defs | _ \<Rightarrow> [])"

section \<open>Example runs\<close>

definition csv_text :: "string list \<Rightarrow> string" where
  "csv_text ls = concat (map (\<lambda>l. l @ [CHR 0x0A]) ls)"

text \<open>The end-to-end example: the CSV, the DataFrame pandas loads from it, the run.\<close>

definition example_csv :: string where
  "example_csv =
     csv_text [''id,name,score,joined'', ''1,Alice,9.5,2023-01-01'', ''2,Bob,,2023-02-15'']"

definition example_df :: dataframe where
  "example_df = \<lparr>nrows = 2, columns =
     [\<lparr>cname = ''id'', cvalues = Int64 [1, 2]\<rparr>,
      \<lparr>cname = ''name'', cvalues = Object [ObjStr ''Alice'', ObjStr ''Bob'']\<rparr>,
      \<lparr>cname = ''score'', cvalues = Float64 [Some 9.5, None]\<rparr>,
      \<lparr>cname = ''joined'', cvalues = Object [ObjStr ''2023-01-01'', ObjStr ''2023-02-15'']\<rparr>]\<rparr>"

definition example_env :: env where
  "example_env = \<lparr>pd_read_csv = pandas_read_csv [''data/example.csv'' \<mapsto> example_csv],
     utcnow_isoformat = ''2025-01-01T00:00:00''\<rparr>"

definition example_args :: args where
  "example_args = \<lparr>input = ''data/example.csv'', out = ''docs'', required_columns = [],
     citation = [], license = [], doi = [], contact = [], notes_arg = []\<rparr>"

definition required_args :: "string list \<Rightarrow> args" where
  "required_args required = example_args\<lparr>required_columns := required\<rparr>"

text \<open>The row data the end-to-end example is said to produce.\<close>

definition claimed_data :: pyval where
  "claimed_data = PyList
     [PyDict [(''id'', PyInt 1), (''name'', PyStr ''Alice''), (''score'', PyFloat 9.5),
              (''joined'', PyStr ''2023-01-01T00:00:00Z'')],
      PyDict [(''id'', PyInt 2), (''name'', PyStr ''Bob''), (''score'', PyNone),
              (''joined'', PyStr ''2023-02-15T00:00:00Z'')]]"

text \<open>A CSV whose header repeats a name, and one with an empty numeric field.\<close>

definition duplicate_csv :: string where
  "duplicate_csv = csv_text [''x,x'', ''1,2'']"

definition duplicate_env :: env where
  "duplicate_env = \<lparr>pd_read_csv = pandas_read_csv [''data/example.csv'' \<mapsto> duplicate_csv],
     utcnow_isoformat = ''2025-01-01T00:00:00''\<rparr>"

definition gap_csv :: string where
  "gap_csv = csv_text [''id,score'', ''1,9.5'', ''2,'']"

definition gap_env :: env where
  "gap_env = \<lparr>pd_read_csv = pandas_read_csv [''data/example.csv'' \<mapsto> gap_csv],
     utcnow_isoformat = ''2025-01-01T00:00:00''\<rparr>"



section \<open>Facts about the library functions\<close>

subsection \<open>Column names\<close>

lemma any_duplicated_from:
  "any (duplicated_from seen xs) \<longleftrightarrow> (\<not> distinct xs \<or> set xs \<inter> set seen \<noteq> {})"
  by (induction xs arbitrary: seen) (auto simp: any_def)

lemma any_duplicated_iff: "any (duplicated xs) \<longleftrightarrow> \<not> distinct xs"
  by (simp add: duplicated_def any_duplicated_from)

lemma filter_cname_unique:
  "distinct (map cname cols) \<Longrightarrow> x \<in> set cols \<Longrightarrow> filter (\<lambda>y. cname y = cname x) cols = [x]"
proof (induction cols)
  case Nil
  then show ?case by simp
next
  case (Cons y cols)
  show ?case
  proof (cases "x = y")
    case True
    have "cname y \<notin> cname ` set cols"
      using Cons.prems(1) by simp
    then have "\<forall>z \<in> set cols. cname z \<noteq> cname y"
      by (metis image_eqI)
    then have "filter (\<lambda>z. cname z = cname y) cols = []"
      by (simp add: filter_empty_conv)
    with True show ?thesis by simp
  next
    case False
    with Cons.prems have xin: "x \<in> set cols" by simp
    with Cons.prems(1) have "cname y \<noteq> cname x" by force
    with Cons.IH Cons.prems(1) xin show ?thesis by simp
  qed
qed

lemma getitem_unique:
  "distinct (df_columns df) \<Longrightarrow> x \<in> set (columns df) \<Longrightarrow> getitem df (cname x) = Inr (OneSeries (cvalues x))"
  by (simp add: getitem_def df_columns_def filter_cname_unique)

subsection \<open>Dicts\<close>

lemma dict_setitem_fresh: "k \<notin> fst ` set d \<Longrightarrow> dict_setitem d k v = d @ [(k, v)]"
  by (induction d) auto

lemma foldl_dict_setitem:
  "distinct (map fst (d @ kvs)) \<Longrightarrow> foldl (\<lambda>d (k, v). dict_setitem d k v) d kvs = d @ kvs"
proof (induction kvs arbitrary: d)
  case Nil
  then show ?case by simp
next
  case (Cons kv kvs)
  obtain k v where kv: "kv = (k, v)" by (cases kv)
  from Cons.prems kv have fresh: "k \<notin> fst ` set d" by auto
  from Cons.prems kv have "distinct (map fst ((d @ [(k, v)]) @ kvs))" by simp
  from Cons.IH [OF this] show ?case
    by (simp add: kv dict_setitem_fresh [OF fresh])
qed

lemma py_dict_distinct: "distinct (map fst kvs) \<Longrightarrow> py_dict kvs = kvs"
  using foldl_dict_setitem [of "[]" kvs] by (simp add: py_dict_def)

subsection \<open>Digits and the timestamp format\<close>

lemma digit_codes: "k < 10 \<Longrightarrow> of_char (''0123456789'' ! k) = (48::nat) + k"
proof -
  assume "k < 10"
  then have "k \<in> set [0,1,2,3,4,5,6,7,8,9]" by (simp; arith)
  then show ?thesis by auto
qed

lemma digit_char_code: "of_char (digit_char d) = (48::nat) + d mod 10"
  by (simp add: digit_char_def digit_codes)

lemma is_digit_digit_char [simp]: "is_digit (digit_char d)"
proof -
  have "d mod 10 < 10" by simp
  then show ?thesis by (simp add: is_digit_def digit_char_code)
qed





subsection \<open>Title case\<close>

text \<open>
  Position by position: a character that is no letter is kept, a letter that follows a
  letter is lowered, any other letter is raised.
\<close>

lemma length_title_from [simp]: "length (title_from prev s) = length s"
  by (induction s arbitrary: prev) auto

lemma title_from_nth:
  "i < length s \<Longrightarrow>
   title_from prev s ! i =
     (if \<not> is_cased (s ! i) then s ! i
      else if (if i = 0 then prev else is_cased (s ! (i - 1))) then to_lower (s ! i)
      else to_upper (s ! i))"
proof (induction s arbitrary: prev i)
  case Nil
  then show ?case by simp
next
  case (Cons c s)
  have lu: "is_lower c \<Longrightarrow> \<not> is_upper c" by (auto simp: is_lower_def is_upper_def)
  show ?case
  proof (cases i)
    case 0
    then show ?thesis using lu by (auto simp: is_cased_def to_lower_def to_upper_def)
  next
    case (Suc j)
    with Cons.prems have j: "j < length s" by simp
    show ?thesis
      using Cons.IH [OF j] Suc by (cases j) (auto simp: is_cased_def)
  qed
qed

lemma title_nth:
  "i < length s \<Longrightarrow>
   title s ! i =
     (if \<not> is_cased (s ! i) then s ! i
      else if 0 < i \<and> is_cased (s ! (i - 1)) then to_lower (s ! i)
      else to_upper (s ! i))"
  by (simp add: title_def title_from_nth)

subsection \<open>Output paths\<close>

lemma out_paths_distinct [simp]:
  "data_out a \<noteq> columns_out a" "data_out a \<noteq> meta_out a" "columns_out a \<noteq> meta_out a"
  "columns_out a \<noteq> data_out a" "meta_out a \<noteq> data_out a" "meta_out a \<noteq> columns_out a"
  by (simp_all add: data_out_def columns_out_def meta_out_def path_join_def)

section \<open>Iteration over the columns\<close>

text \<open>
  On a DataFrame whose column names differ, the loop of lines 121-123 maps
  \<open>normalized_column\<close> over the columns and raises nothing.
\<close>

lemma cname_normalized_column [simp]: "cname (normalized_column c) = cname c"
  by (simp add: normalized_column_def split: series.splits)

lemma normalized_column_idem [simp]: "normalized_column (normalized_column c) = normalized_column c"
  by (simp add: normalized_column_def split: series.splits)

lemma normalize_loop_map:
  "distinct (df_columns df) \<Longrightarrow> set cs \<subseteq> set (df_columns df) \<Longrightarrow>
   normalize_loop cs df =
     Inr (df\<lparr>columns := map (\<lambda>x. if cname x \<in> set cs then normalized_column x else x) (columns df)\<rparr>)"
proof (induction cs arbitrary: df)
  case Nil
  then show ?case by simp
next
  case (Cons c cs)
  from Cons.prems(2) obtain x where x: "x \<in> set (columns df)" "cname x = c"
    by (auto simp: df_columns_def)
  have get: "getitem df c = Inr (OneSeries (cvalues x))"
    using getitem_unique [OF Cons.prems(1) x(1)] x(2) by simp
  have uniq: "\<And>y. y \<in> set (columns df) \<Longrightarrow> cname y = c \<Longrightarrow> y = x"
    using Cons.prems(1) x by (auto simp: df_columns_def distinct_map inj_on_def)
  show ?case
  proof (cases "is_datetime64_any_dtype (cvalues x)")
    case False
    then have nx: "normalized_column x = x"
      by (cases "cvalues x") (simp_all add: normalized_column_def)
    have "map (\<lambda>y. if cname y \<in> set cs then normalized_column y else y) (columns df) =
          map (\<lambda>y. if cname y \<in> set (c # cs) then normalized_column y else y) (columns df)"
      using uniq nx by (intro map_cong) auto
    moreover have "normalize_loop (c # cs) df = normalize_loop cs df"
      using get False by simp
    ultimately show ?thesis using Cons.IH [of df] Cons.prems by simp
  next
    case True
    then obtain xs where xs: "cvalues x = Datetime64 xs"
      by (cases "cvalues x") simp_all
    let ?s = "Object (map strftime_value xs)"
    let ?df = "setitem df c ?s"
    have names: "df_columns ?df = df_columns df"
      by (simp add: setitem_def df_columns_def comp_def)
    have step: "normalize_loop (c # cs) df = normalize_loop cs ?df"
      using get xs by simp
    have ih: "normalize_loop cs ?df =
       Inr (?df\<lparr>columns := map (\<lambda>y. if cname y \<in> set cs then normalized_column y else y) (columns ?df)\<rparr>)"
      using Cons.IH [of ?df] Cons.prems names by simp
    have "map (\<lambda>y. if cname y \<in> set cs then normalized_column y else y)
            (map (\<lambda>y. if cname y = c then y\<lparr>cvalues := ?s\<rparr> else y) (columns df)) =
          map (\<lambda>y. if cname y \<in> set (c # cs) then normalized_column y else y) (columns df)"
    proof (simp only: map_map, intro map_cong refl)
      fix y assume y: "y \<in> set (columns df)"
      show "((\<lambda>y. if cname y \<in> set cs then normalized_column y else y) \<circ>
             (\<lambda>y. if cname y = c then y\<lparr>cvalues := ?s\<rparr> else y)) y =
            (if cname y \<in> set (c # cs) then normalized_column y else y)"
      proof (cases "cname y = c")
        case True
        with uniq y have "y = x" by simp
        with xs x show ?thesis by (simp add: normalized_column_def)
      next
        case False
        then show ?thesis by simp
      qed
    qed
    with step ih show ?thesis by (simp add: setitem_def)
  qed
qed

lemma normalize_datetimes_map:
  "distinct (df_columns df) \<Longrightarrow>
   normalize_datetimes df = Inr (df\<lparr>columns := map normalized_column (columns df)\<rparr>)"
proof -
  assume d: "distinct (df_columns df)"
  have "map (\<lambda>x. if cname x \<in> set (df_columns df) then normalized_column x else x) (columns df) =
        map normalized_column (columns df)"
    by (intro map_cong) (auto simp: df_columns_def)
  with normalize_loop_map [OF d subset_refl] show ?thesis
    by (simp add: normalize_datetimes_def)
qed

lemma not_datetime_normalized_column [simp]:
  "\<not> is_datetime64_any_dtype (cvalues (normalized_column c))"
  by (cases "cvalues c") (simp_all add: normalized_column_def)

lemma series_len_normalized_column [simp]:
  "series_len (cvalues (normalized_column c)) = series_len (cvalues c)"
  by (cases "cvalues c") (simp_all add: normalized_column_def series_len_def)

lemma df_columns_normalized [simp]: "df_columns (normalized df) = df_columns df"
  by (simp add: df_columns_def normalized_def comp_def)

lemma wf_df_normalized [simp]: "wf_df (normalized df) = wf_df df"
  by (simp add: wf_df_def normalized_def list_all_iff)

lemma normalized_column_sorter:
  "sorter_of (dtype_str (cvalues (normalized_column c))) \<in> {''number'', ''string''}"
  by (cases "cvalues c") (simp_all add: normalized_column_def sorter_of_def)

text \<open>The loop of \<open>infer_tabulator_columns\<close> yields one entry per column.\<close>

lemma infer_loop_map:
  "distinct (df_columns df) \<Longrightarrow> set cs \<subseteq> set (columns df) \<Longrightarrow>
   infer_loop df (map cname cs) = Inr (map column_schema cs)"
proof (induction cs)
  case Nil
  then show ?case by simp
next
  case (Cons c cs)
  then have "getitem df (cname c) = Inr (OneSeries (cvalues c))"
    by (simp add: getitem_unique)
  with Cons show ?case by (simp add: column_schema_def)
qed

lemma infer_tabulator_columns_map:
  "distinct (df_columns df) \<Longrightarrow>
   infer_tabulator_columns df = Inr (map column_schema (columns df))"
  using infer_loop_map [of df "columns df"]
  by (simp add: infer_tabulator_columns_def df_columns_def)

lemma infer_loop_length: "infer_loop df cs = Inr defs \<Longrightarrow> length defs = length cs"
  by (induction cs arbitrary: defs) (auto split: sum.splits selection.splits)


text \<open>The records of \<^verbatim>\<open>to_dict\<close>, and what \<^verbatim>\<open>json.dump\<close> accepts.\<close>

lemma is_datetime_where_series [simp]:
  "is_datetime64_any_dtype (where_series s) = is_datetime64_any_dtype s"
  by (cases s) simp_all

lemma series_len_where_series [simp]: "series_len (where_series s) = series_len s"
  by (cases s) (simp_all add: series_len_def)

lemma df_columns_where [simp]: "df_columns (where_notnull_none df) = df_columns df"
  by (simp add: df_columns_def where_notnull_none_def comp_def)

lemma to_dict_records_rows:
  "distinct (df_columns df) \<Longrightarrow>
   to_dict_records (where_notnull_none df) = map (\<lambda>i. PyDict (row_record df i)) [0 ..< nrows df]"
proof -
  assume d: "distinct (df_columns df)"
  have "\<And>i. py_dict (row_record df i) = row_record df i"
    using d by (intro py_dict_distinct) (simp add: row_record_def df_columns_def comp_def)
  then show ?thesis
    by (simp add: to_dict_records_def where_notnull_none_def row_record_def comp_def)
qed

lemma json_serializable_box_obj [simp]: "json_serializable (box_obj x)"
  by (cases x) simp_all

lemma json_serializable_series_values:
  "\<not> is_datetime64_any_dtype s \<Longrightarrow> v \<in> set (series_values s) \<Longrightarrow> json_serializable v"
  by (cases s) (auto split: option.splits)

lemma json_serializable_row_record:
  assumes wf: "wf_df df" and nd: "\<forall>c \<in> set (columns df). \<not> is_datetime64_any_dtype (cvalues c)"
    and i: "i < nrows df"
  shows "json_serializable (PyDict (row_record df i))"
proof -
  have "json_serializable (series_values (where_series (cvalues c)) ! i)" if c: "c \<in> set (columns df)" for c
  proof -
    from wf c have "series_len (cvalues c) = nrows df"
      by (simp add: wf_df_def list_all_iff)
    with i have "i < length (series_values (where_series (cvalues c)))"
      using series_len_where_series [of "cvalues c"] by (simp add: series_len_def)
    then have "series_values (where_series (cvalues c)) ! i \<in> set (series_values (where_series (cvalues c)))"
      by simp
    moreover from nd c have "\<not> is_datetime64_any_dtype (where_series (cvalues c))" by simp
    ultimately show ?thesis by (rule json_serializable_series_values [rotated])
  qed
  then show ?thesis by (auto simp: row_record_def)
qed

lemma json_serializable_column_schema [simp]: "json_serializable (column_schema c)"
  by (simp add: column_schema_def col_def_def)

lemma json_serializable_make_metadata [simp]: "json_serializable (make_metadata e a df)"
  by (simp add: make_metadata_def)

lemma object_missing_written_as_none:
  "i < length xs \<Longrightarrow> isnull (xs ! i) \<Longrightarrow> series_values (where_series (Object xs)) ! i = PyNone"
  by simp

lemma float_missing_kept:
  "i < length xs \<Longrightarrow> xs ! i = None \<Longrightarrow> series_values (where_series (Float64 xs)) ! i = PyNaN"
  by simp

section \<open>A run on a validated table\<close>

text \<open>
  When every required name is present and the column names differ, the run succeeds
  and writes the three documents computed from the normalized DataFrame.
\<close>

lemma read_csv_eq [simp]: "read_csv e p = pd_read_csv e p"
  by (simp add: read_csv_def)

lemma check_required_columns_ok:
  "set required \<subseteq> set (df_columns df) \<Longrightarrow> check_required_columns required df = Inr df"
  by (auto simp: check_required_columns_def missing_columns_def filter_empty_conv)

lemma check_duplicated_columns_ok:
  "distinct (df_columns df) \<Longrightarrow> check_duplicated_columns df = Inr df"
  by (simp add: check_duplicated_columns_def any_duplicated_iff)

lemma emit_ok:
  assumes wf: "wf_df df" and d: "distinct (df_columns df)"
    and nd: "\<forall>c \<in> set (columns df). \<not> is_datetime64_any_dtype (cvalues c)"
  shows "emit e a df files =
    (files(data_out a \<mapsto> Document (PyList (map (\<lambda>i. PyDict (row_record df i)) [0 ..< nrows df])),
           columns_out a \<mapsto> Document (PyList (map column_schema (columns df))),
           meta_out a \<mapsto> Document (make_metadata e a df)),
     Inr ())"
proof -
  have 1: "json_serializable (PyList (map (\<lambda>i. PyDict (row_record df i)) [0 ..< nrows df]))"
    using json_serializable_row_record [OF wf nd] by simp
  have 2: "json_serializable (PyList (map column_schema (columns df)))"
    by simp
  show ?thesis
    using 1 2
    by (simp add: emit_def to_dict_records_rows [OF d] infer_tabulator_columns_map [OF d]
        write_json_def del: json_serializable.simps)
qed

lemma process_validated:
  assumes wf: "wf_df df" and req: "set (required_columns a) \<subseteq> set (df_columns df)"
    and d: "distinct (df_columns df)"
  shows "process e a df files =
    (files(data_out a \<mapsto> Document (PyList (map (\<lambda>i. PyDict (row_record (normalized df) i)) [0 ..< nrows df])),
           columns_out a \<mapsto> Document (PyList (map column_schema (columns (normalized df)))),
           meta_out a \<mapsto> Document (make_metadata e a (normalized df))),
     Inr ())"
proof -
  have n: "normalize_datetimes df = Inr (normalized df)"
    using normalize_datetimes_map [OF d] by (simp add: normalized_def)
  have nd: "\<forall>c \<in> set (columns (normalized df)). \<not> is_datetime64_any_dtype (cvalues c)"
    by (auto simp: normalized_def)
  have "emit e a (normalized df) files = 
    (files(data_out a \<mapsto> Document (PyList (map (\<lambda>i. PyDict (row_record (normalized df) i)) [0 ..< nrows (normalized df)])),
           columns_out a \<mapsto> Document (PyList (map column_schema (columns (normalized df)))),
           meta_out a \<mapsto> Document (make_metadata e a (normalized df))),
     Inr ())"
    by (rule emit_ok) (use wf d nd in simp_all)
  moreover have "nrows (normalized df) = nrows df" by (simp add: normalized_def)
  ultimately show ?thesis
    by (simp add: process_def check_required_columns_ok [OF req] check_duplicated_columns_ok [OF d] n)
qed

lemma main_validated:
  assumes "read_csv e (input a) = Inr df" "wf_df df"
    "set (required_columns a) \<subseteq> set (df_columns df)" "distinct (df_columns df)"
  shows "main e a files =
    (files(data_out a \<mapsto> Document (PyList (map (\<lambda>i. PyDict (row_record (normalized df) i)) [0 ..< nrows df])),
           columns_out a \<mapsto> Document (PyList (map column_schema (columns (normalized df)))),
           meta_out a \<mapsto> Document (make_metadata e a (normalized df))),
     Inr ())"
  using assms by (simp add: main_def process_validated del: read_csv_eq)

text \<open>No entry such a run writes carries the sorter "date".\<close>

lemma emitted_sorters_never_date:
  assumes "read_csv e (input a) = Inr df" "wf_df df"
    "set (required_columns a) \<subseteq> set (df_columns df)" "distinct (df_columns df)"
  shows "PyStr ''date'' \<notin> set (document_sorters (fst (main e a files) (columns_out a)))"
proof -
  have ns: "entry_sorter (column_schema (normalized_column c)) \<noteq> PyStr ''date''" for c
    using normalized_column_sorter [of c]
    by (auto simp: entry_sorter_def column_schema_def col_def_def)
  have "document_sorters (fst (main e a files) (columns_out a)) =
      map (\<lambda>c. entry_sorter (column_schema (normalized_column c))) (columns df)"
    by (simp add: main_validated [OF assms] document_sorters_def normalized_def comp_def)
  moreover have "PyStr ''date'' \<notin>
      (\<lambda>c. entry_sorter (column_schema (normalized_column c))) ` set (columns df)"
  proof
    assume "PyStr ''date'' \<in>
      (\<lambda>c. entry_sorter (column_schema (normalized_column c))) ` set (columns df)"
    then obtain c where "entry_sorter (column_schema (normalized_column c)) = PyStr ''date''"
      by (elim imageE) (rule that, rule sym)
    with ns [of c] show False by (rule notE)
  qed
  ultimately show ?thesis by simp
qed

text \<open>
  A table in which a name repeats is refused once the required names are found to be
  present.
\<close>

lemma duplicated_table_aborts:
  "set (required_columns a) \<subseteq> set (df_columns df) \<Longrightarrow> \<not> distinct (df_columns df) \<Longrightarrow>
   process e a df files = (files, Inl ExitDuplicatedColumns)"
  by (simp add: process_def check_required_columns_ok check_duplicated_columns_def any_duplicated_iff)

text \<open>What a run that succeeded has done.\<close>

lemma emit_success:
  assumes "emit e a df files = (files', Inr ())"
  shows "\<exists>defs. infer_tabulator_columns df = Inr defs \<and>
     files' = files(data_out a \<mapsto> Document (PyList (to_dict_records (where_notnull_none df))),
                    columns_out a \<mapsto> Document (PyList defs),
                    meta_out a \<mapsto> Document (make_metadata e a df))"
  using assms
  by (auto simp: emit_def write_json_def Let_def simp del: json_serializable.simps
      split: sum.splits if_splits)

lemma main_success:
  assumes "main e a files = (files', Inr ())"
  shows "\<exists>df df'. read_csv e (input a) = Inr df \<and> normalize_datetimes df = Inr df' \<and>
           emit e a df' files = (files', Inr ())"
  using assms
  by (auto simp: main_def process_def check_required_columns_def check_duplicated_columns_def Let_def
      simp del: read_csv_eq split: sum.splits if_splits)

lemma emit_clock:
  "snd (emit e1 a df files) = snd (emit e2 a df files) \<and>
   (p \<noteq> meta_out a \<longrightarrow> fst (emit e1 a df files) p = fst (emit e2 a df files) p)"
  by (auto simp: emit_def write_json_def Let_def simp del: json_serializable.simps
      split: sum.splits prod.splits if_splits)

lemma emit_rerun:
  "p \<noteq> meta_out a \<Longrightarrow>
   fst (emit e2 a df (fst (emit e1 a df files))) p = fst (emit e1 a df files) p"
  by (auto simp: emit_def write_json_def Let_def simp del: json_serializable.simps
      split: sum.splits prod.splits if_splits)

section \<open>The example runs\<close>

lemma parse_example_csv: "parse_csv example_csv = Inr example_df"
  by code_simp

lemma read_example: "read_csv example_env (input example_args) = Inr example_df"
  by (simp add: example_env_def example_args_def pandas_read_csv_def parse_example_csv)

lemma example_valid:
  "wf_df example_df" "distinct (df_columns example_df)"
  by (simp_all add: example_df_def wf_df_def df_columns_def series_len_def)

lemma main_example:
  "main example_env example_args files =
    (files(data_out example_args \<mapsto> Document (PyList
            [PyDict [(''id'', PyInt 1), (''name'', PyStr ''Alice''), (''score'', PyFloat 9.5),
                     (''joined'', PyStr ''2023-01-01'')],
             PyDict [(''id'', PyInt 2), (''name'', PyStr ''Bob''), (''score'', PyNaN),
                     (''joined'', PyStr ''2023-02-15'')]]),
           columns_out example_args \<mapsto> Document (PyList
            [col_def ''id'' ''number'', col_def ''name'' ''string'',
             col_def ''score'' ''number'', col_def ''joined'' ''string'']),
           meta_out example_args \<mapsto> Document (make_metadata example_env example_args example_df)),
     Inr ())"
proof -
  have req: "set (required_columns example_args) \<subseteq> set (df_columns example_df)"
    by (simp add: example_args_def)
  have n: "normalized example_df = example_df"
    by (simp add: normalized_def normalized_column_def example_df_def)
  have rows: "map (\<lambda>i. PyDict (row_record example_df i)) [0 ..< nrows example_df] =
     [PyDict [(''id'', PyInt 1), (''name'', PyStr ''Alice''), (''score'', PyFloat 9.5),
                     (''joined'', PyStr ''2023-01-01'')],
             PyDict [(''id'', PyInt 2), (''name'', PyStr ''Bob''), (''score'', PyNaN),
                     (''joined'', PyStr ''2023-02-15'')]]"
    by (simp add: example_df_def row_record_def upt_rec)
  have cols: "map column_schema (columns example_df) =
      [col_def ''id'' ''number'', col_def ''name'' ''string'',
             col_def ''score'' ''number'', col_def ''joined'' ''string'']"
    by (simp add: example_df_def column_schema_def sorter_of_def)
  show ?thesis
    using main_validated [OF read_example example_valid(1) req example_valid(2), of files]
    by (simp only: n rows cols)
qed

lemma parse_duplicate_csv:
  "parse_csv duplicate_csv =
     Inr \<lparr>nrows = 1, columns = [\<lparr>cname = ''x'', cvalues = Int64 [1]\<rparr>,
                                 \<lparr>cname = ''x.1'', cvalues = Int64 [2]\<rparr>]\<rparr>"
  by code_simp

lemma parse_gap_csv:
  "parse_csv gap_csv =
     Inr \<lparr>nrows = 2, columns = [\<lparr>cname = ''id'', cvalues = Int64 [1, 2]\<rparr>,
                                 \<lparr>cname = ''score'', cvalues = Float64 [Some 9.5, None]\<rparr>]\<rparr>"
  by code_simp


section \<open>The claims\<close>


text \<open>
  C2. For the CSV with header \<^verbatim>\<open>id,name,score,joined\<close> and rows
  \<^verbatim>\<open>1,Alice,9.5,2023-01-01\<close> and \<^verbatim>\<open>2,Bob,,2023-02-15\<close>, run with no required
  columns, the claim states: \<^verbatim>\<open>data.json\<close> holds the two records with
  \<^verbatim>\<open>joined\<close> as \<^verbatim>\<open>2023-01-01T00:00:00Z\<close> and \<^verbatim>\<open>2023-02-15T00:00:00Z\<close> and Bob's
  score \<^verbatim>\<open>null\<close>, the sorters are number, string, number, date, and the metadata
  has \<^verbatim>\<open>n_rows\<close> 2 and \<^verbatim>\<open>n_columns\<close> 4. The run does not produce that output.
\<close>

theorem example_csv_claimed_output_counterexample:
  "\<not> (fst (main example_env example_args Map.empty) (data_out example_args) = Some (Document claimed_data) \<and>
      document_sorters (fst (main example_env example_args Map.empty) (columns_out example_args)) =
        [PyStr ''number'', PyStr ''string'', PyStr ''number'', PyStr ''date''] \<and>
      document_get (fst (main example_env example_args Map.empty) (meta_out example_args)) ''n_rows'' = Some (PyInt 2) \<and>
      document_get (fst (main example_env example_args Map.empty) (meta_out example_args)) ''n_columns'' = Some (PyInt 4))"
  by (simp add: main_example claimed_data_def)

text \<open>
  C2, as the script behaves. \<^verbatim>\<open>pd.read_csv\<close> does not parse dates, so the
  \<^verbatim>\<open>joined\<close> column is text: \<^verbatim>\<open>data.json\<close> holds two records with the keys
  \<^verbatim>\<open>id, name, score, joined\<close> in this order, ids 1 and 2, names Alice and Bob,
  Alice's score 9.5 and the \<^verbatim>\<open>joined\<close> texts \<^verbatim>\<open>2023-01-01\<close> and
  \<^verbatim>\<open>2023-02-15\<close> as the source has them; the sorters are number, string, number,
  string; the metadata has \<^verbatim>\<open>n_rows\<close> 2 and \<^verbatim>\<open>n_columns\<close> 4. Nothing is stated
  about the value of Bob's missing score (see C5).
\<close>

theorem example_csv_output:
  "(\<exists>v. fst (main example_env example_args Map.empty) (data_out example_args) =
      Some (Document (PyList
        [PyDict [(''id'', PyInt 1), (''name'', PyStr ''Alice''), (''score'', PyFloat 9.5),
                 (''joined'', PyStr ''2023-01-01'')],
         PyDict [(''id'', PyInt 2), (''name'', PyStr ''Bob''), (''score'', v),
                 (''joined'', PyStr ''2023-02-15'')]]))) \<and>
   document_sorters (fst (main example_env example_args Map.empty) (columns_out example_args)) =
     [PyStr ''number'', PyStr ''string'', PyStr ''number'', PyStr ''string''] \<and>
   document_get (fst (main example_env example_args Map.empty) (meta_out example_args)) ''n_rows'' = Some (PyInt 2) \<and>
   document_get (fst (main example_env example_args Map.empty) (meta_out example_args)) ''n_columns'' = Some (PyInt 4)"
  by (simp add: main_example document_sorters_def entry_sorter_def col_def_def document_get_def
      make_metadata_def shape_def example_df_def)

text \<open>
  C3. For every table and every list of required column names: if a required name is
  absent from the table's columns, the run fails with the error that lists every absent
  required name, exits with a non-zero status and leaves the files as they were; if
  every required name is present, the check passes and hands on the table unchanged.
\<close>

theorem missing_required_columns_abort:
  assumes "read_csv e (input a) = Inr df"
  shows "if set (required_columns a) \<subseteq> set (df_columns df)
         then check_required_columns (required_columns a) df = Inr df
         else (\<exists>missing. main e a files = (files, Inl (ExitMissingColumns missing)) \<and>
                 missing \<noteq> [] \<and>
                 set missing = set (required_columns a) - set (df_columns df) \<and>
                 exit_status (snd (main e a files)) \<noteq> 0)"
proof (cases "set (required_columns a) \<subseteq> set (df_columns df)")
  case True
  then show ?thesis by (simp add: check_required_columns_ok)
next
  case False
  let ?missing = "missing_columns (required_columns a) df"
  from False have ne: "?missing \<noteq> []"
    by (auto simp: missing_columns_def filter_empty_conv)
  have s: "set ?missing = set (required_columns a) - set (df_columns df)"
    by (auto simp: missing_columns_def)
  have m: "main e a files = (files, Inl (ExitMissingColumns ?missing))"
    using assms ne by (simp add: main_def process_def check_required_columns_def del: read_csv_eq)
  have "exit_status (snd (main e a files)) \<noteq> 0"
    by (simp add: m exit_status_def)
  with False ne s m show ?thesis by auto
qed

theorem missing_required_columns_abort_witness:
  "read_csv example_env (input (required_args [''id'', ''b'', ''c''])) = Inr example_df \<and>
   (\<exists>missing. main example_env (required_args [''id'', ''b'', ''c'']) Map.empty =
        (Map.empty, Inl (ExitMissingColumns missing)) \<and>
      set missing = {''b'', ''c''}) \<and>
   read_csv example_env (input (required_args [''id''])) = Inr example_df \<and>
   check_required_columns (required_columns (required_args [''id''])) example_df = Inr example_df"
proof -
  have r: "read_csv example_env (input (required_args req)) = Inr example_df" for req
    using read_example by (simp add: required_args_def)
  have c: "df_columns example_df = [''id'', ''name'', ''score'', ''joined'']"
    by (simp add: example_df_def df_columns_def)
  have 1: "\<exists>missing. main example_env (required_args [''id'', ''b'', ''c'']) Map.empty =
        (Map.empty, Inl (ExitMissingColumns missing)) \<and> set missing = {''b'', ''c''}"
    using missing_required_columns_abort [OF r, of "[''id'', ''b'', ''c'']" Map.empty]
    by (auto simp: c required_args_def)
  have 2: "check_required_columns (required_columns (required_args [''id''])) example_df = Inr example_df"
    using missing_required_columns_abort [OF r, of "[''id'']" Map.empty]
    by (simp add: c required_args_def)
  from 1 2 r show ?thesis by blast
qed

text \<open>
  C4. For every input source whose header contains two columns with the same name, the
  run aborts with the duplicated-columns error before any output file is created.

  The script does not do this. \<^verbatim>\<open>pd.read_csv\<close> renames the second \<^verbatim>\<open>x\<close> of the
  header \<^verbatim>\<open>x,x\<close> to \<^verbatim>\<open>x.1\<close>, so the test of lines 116-117 finds no repeated name:
  the run succeeds and writes its documents.
\<close>

theorem duplicate_header_not_detected:
  "snd (main duplicate_env example_args Map.empty) = Inr () \<and>
   fst (main duplicate_env example_args Map.empty) (data_out example_args) =
     Some (Document (PyList [PyDict [(''x'', PyInt 1), (''x.1'', PyInt 2)]])) \<and>
   document_sorters (fst (main duplicate_env example_args Map.empty) (columns_out example_args)) =
     [PyStr ''number'', PyStr ''number'']"
proof -
  let ?df = "\<lparr>nrows = 1, columns = [\<lparr>cname = ''x'', cvalues = Int64 [1]\<rparr>,
                                 \<lparr>cname = ''x.1'', cvalues = Int64 [2]\<rparr>]\<rparr>"
  have r: "read_csv duplicate_env (input example_args) = Inr ?df"
    by (simp add: duplicate_env_def example_args_def pandas_read_csv_def parse_duplicate_csv)
  have v: "wf_df ?df" "set (required_columns example_args) \<subseteq> set (df_columns ?df)"
    "distinct (df_columns ?df)"
    by (simp_all add: wf_df_def df_columns_def series_len_def example_args_def)
  show ?thesis
    by (simp add: main_validated [OF r v] normalized_def normalized_column_def row_record_def
        column_schema_def col_def_def sorter_of_def document_sorters_def entry_sorter_def)
qed

text \<open>
  C5. Every cell that is missing in the source appears in \<^verbatim>\<open>data.json\<close> as
  \<^verbatim>\<open>null\<close>, never as another marker.

  The script does not do this for numeric columns. The empty \<^verbatim>\<open>score\<close> field is a
  \<^verbatim>\<open>NaN\<close> of a \<^verbatim>\<open>float64\<close> column, which \<^verbatim>\<open>df.where(pd.notnull(df), None)\<close>
  leaves as it is, and \<^verbatim>\<open>json.dump\<close> writes it as the token \<^verbatim>\<open>NaN\<close>.
\<close>

theorem missing_float_written_as_nan:
  "snd (main gap_env example_args Map.empty) = Inr () \<and>
   fst (main gap_env example_args Map.empty) (data_out example_args) =
     Some (Document (PyList [PyDict [(''id'', PyInt 1), (''score'', PyFloat 9.5)],
                             PyDict [(''id'', PyInt 2), (''score'', PyNaN)]]))"
proof -
  let ?df = "\<lparr>nrows = 2, columns = [\<lparr>cname = ''id'', cvalues = Int64 [1, 2]\<rparr>,
                                 \<lparr>cname = ''score'', cvalues = Float64 [Some 9.5, None]\<rparr>]\<rparr>"
  have r: "read_csv gap_env (input example_args) = Inr ?df"
    by (simp add: gap_env_def example_args_def pandas_read_csv_def parse_gap_csv)
  have v: "wf_df ?df" "set (required_columns example_args) \<subseteq> set (df_columns ?df)"
    "distinct (df_columns ?df)"
    by (simp_all add: wf_df_def df_columns_def series_len_def example_args_def)
  show ?thesis
    by (simp add: main_validated [OF r v] normalized_def normalized_column_def row_record_def upt_rec)
qed

text \<open>
  C6. For every table with N rows and M columns that passes validation, the row-data
  document is a sequence of exactly N records; each record has exactly M keys, the keys
  are the table's column names in the table's column order, and record \<open>i\<close> holds
  the values of row \<open>i\<close>.
\<close>

theorem rows_round_trip:
  assumes "read_csv e (input a) = Inr df" "wf_df df"
    "set (required_columns a) \<subseteq> set (df_columns df)" "distinct (df_columns df)"
  shows "\<exists>records. fst (main e a files) (data_out a) = Some (Document (PyList records)) \<and>
           length records = nrows df \<and>
           (\<forall>i < nrows df. \<exists>kvs. records ! i = PyDict kvs \<and>
              length kvs = length (columns df) \<and>
              map fst kvs = df_columns df \<and>
              map snd kvs = map (\<lambda>c. series_values (where_series (cvalues (normalized_column c))) ! i) (columns df))"
proof -
  let ?records = "map (\<lambda>i. PyDict (row_record (normalized df) i)) [0 ..< nrows df]"
  have "fst (main e a files) (data_out a) = Some (Document (PyList ?records))"
    by (simp add: main_validated [OF assms])
  moreover have "length ?records = nrows df" by simp
  moreover have "\<forall>i < nrows df. \<exists>kvs. ?records ! i = PyDict kvs \<and>
              length kvs = length (columns df) \<and>
              map fst kvs = df_columns df \<and>
              map snd kvs = map (\<lambda>c. series_values (where_series (cvalues (normalized_column c))) ! i) (columns df)"
    by (simp add: row_record_def normalized_def df_columns_def comp_def)
  ultimately show ?thesis by blast
qed

theorem rows_round_trip_witness:
  "read_csv example_env (input example_args) = Inr example_df \<and> wf_df example_df \<and>
   set (required_columns example_args) \<subseteq> set (df_columns example_df) \<and>
   distinct (df_columns example_df) \<and>
   (\<exists>records. fst (main example_env example_args Map.empty) (data_out example_args) =
        Some (Document (PyList records)) \<and>
      length records = 2 \<and>
      (\<exists>kvs. records ! 1 = PyDict kvs \<and> map fst kvs = [''id'', ''name'', ''score'', ''joined'']))"
proof -
  have req: "set (required_columns example_args) \<subseteq> set (df_columns example_df)"
    by (simp add: example_args_def)
  from rows_round_trip [OF read_example example_valid(1) req example_valid(2), of Map.empty]
  obtain records where r:
    "fst (main example_env example_args Map.empty) (data_out example_args) = Some (Document (PyList records))"
    "length records = nrows example_df"
    "\<forall>i < nrows example_df. \<exists>kvs. records ! i = PyDict kvs \<and>
              length kvs = length (columns example_df) \<and>
              map fst kvs = df_columns example_df \<and>
              map snd kvs = map (\<lambda>c. series_values (where_series (cvalues (normalized_column c))) ! i) (columns example_df)"
    by blast
  have n: "nrows example_df = 2" "df_columns example_df = [''id'', ''name'', ''score'', ''joined'']"
    by (simp_all add: example_df_def df_columns_def)
  from r(3) n have "\<exists>kvs. records ! 1 = PyDict kvs \<and> map fst kvs = [''id'', ''name'', ''score'', ''joined'']"
    by (metis one_less_numeral_iff semiring_norm(76))
  with r(1,2) n read_example example_valid req show ?thesis by auto
qed





text \<open>
  C9. Two runs on the same input and parameters, which can differ only in the reading
  of the clock, end with the same result and write the same \<^verbatim>\<open>data.json\<close> and the
  same \<^verbatim>\<open>columns.json\<close>, whether both start from the same files or the second
  starts from the files the first has left.
\<close>

theorem rerun_same_documents:
  "fst (main (e\<lparr>utcnow_isoformat := t1\<rparr>) a files) (data_out a) =
     fst (main (e\<lparr>utcnow_isoformat := t2\<rparr>) a files) (data_out a) \<and>
   fst (main (e\<lparr>utcnow_isoformat := t1\<rparr>) a files) (columns_out a) =
     fst (main (e\<lparr>utcnow_isoformat := t2\<rparr>) a files) (columns_out a) \<and>
   snd (main (e\<lparr>utcnow_isoformat := t1\<rparr>) a files) =
     snd (main (e\<lparr>utcnow_isoformat := t2\<rparr>) a files) \<and>
   fst (main (e\<lparr>utcnow_isoformat := t2\<rparr>) a (fst (main (e\<lparr>utcnow_isoformat := t1\<rparr>) a files))) (data_out a) =
     fst (main (e\<lparr>utcnow_isoformat := t1\<rparr>) a files) (data_out a) \<and>
   fst (main (e\<lparr>utcnow_isoformat := t2\<rparr>) a (fst (main (e\<lparr>utcnow_isoformat := t1\<rparr>) a files))) (columns_out a) =
     fst (main (e\<lparr>utcnow_isoformat := t1\<rparr>) a files) (columns_out a)"
proof -
  let ?e1 = "e\<lparr>utcnow_isoformat := t1\<rparr>" and ?e2 = "e\<lparr>utcnow_isoformat := t2\<rparr>"
  have same: "snd (main ?e1 a files) = snd (main ?e2 a files) \<and>
      fst (main ?e1 a files) p = fst (main ?e2 a files) p" if "p \<noteq> meta_out a" for p
    using emit_clock [of ?e1 a _ files ?e2 p] that
    by (auto simp: main_def process_def split: sum.splits)
  have again: "fst (main ?e2 a (fst (main ?e1 a files))) p = fst (main ?e1 a files) p"
    if "p \<noteq> meta_out a" for p
    using emit_rerun [of p a ?e2 _ ?e1 files] that
    by (auto simp: main_def process_def split: sum.splits)
  show ?thesis
    using same [of "data_out a"] same [of "columns_out a"]
      again [of "data_out a"] again [of "columns_out a"]
    by simp
qed

text \<open>
  C10. For every run that completes successfully, the metadata's \<^verbatim>\<open>n_rows\<close> is the
  number of records in \<^verbatim>\<open>data.json\<close> and its \<^verbatim>\<open>n_columns\<close> is the number of
  entries in \<^verbatim>\<open>columns.json\<close>.
\<close>

theorem metadata_counts_consistent:
  assumes "main e a files = (files', Inr ())"
  shows "\<exists>records defs md.
           files' (data_out a) = Some (Document (PyList records)) \<and>
           files' (columns_out a) = Some (Document (PyList defs)) \<and>
           files' (meta_out a) = Some (Document (PyDict md)) \<and>
           map_of md ''n_rows'' = Some (PyInt (int (length records))) \<and>
           map_of md ''n_columns'' = Some (PyInt (int (length defs)))"
proof -
  from main_success [OF assms] obtain df df' where
    n: "normalize_datetimes df = Inr df'" and em: "emit e a df' files = (files', Inr ())"
    by blast
  from emit_success [OF em] obtain defs where
    inf: "infer_tabulator_columns df' = Inr defs" and
    f: "files' = files(data_out a \<mapsto> Document (PyList (to_dict_records (where_notnull_none df'))),
                    columns_out a \<mapsto> Document (PyList defs),
                    meta_out a \<mapsto> Document (make_metadata e a df'))"
    by blast
  have len: "length defs = length (columns df')"
    using infer_loop_length [of df' "df_columns df'" defs] inf
    by (simp add: infer_tabulator_columns_def df_columns_def)
  have rows: "length (to_dict_records (where_notnull_none df')) = nrows df'"
    by (simp add: to_dict_records_def where_notnull_none_def)
  obtain md where md: "make_metadata e a df' = PyDict md"
    "map_of md ''n_rows'' = Some (PyInt (int (nrows df')))"
    "map_of md ''n_columns'' = Some (PyInt (int (length (columns df'))))"
    by (simp add: make_metadata_def shape_def)
  show ?thesis
    using f md len rows by simp
qed

theorem metadata_counts_consistent_witness:
  "main example_env example_args Map.empty =
     (fst (main example_env example_args Map.empty), Inr ()) \<and>
   (\<exists>records defs md.
      fst (main example_env example_args Map.empty) (data_out example_args) = Some (Document (PyList records)) \<and>
      fst (main example_env example_args Map.empty) (columns_out example_args) = Some (Document (PyList defs)) \<and>
      fst (main example_env example_args Map.empty) (meta_out example_args) = Some (Document (PyDict md)) \<and>
      map_of md ''n_rows'' = Some (PyInt (int (length records))) \<and>
      map_of md ''n_columns'' = Some (PyInt (int (length defs))))"
proof -
  have req: "set (required_columns example_args) \<subseteq> set (df_columns example_df)"
    by (simp add: example_args_def)
  have ok: "main example_env example_args Map.empty =
     (fst (main example_env example_args Map.empty), Inr ())"
    by (simp add: main_validated [OF read_example example_valid(1) req example_valid(2)])
  from metadata_counts_consistent [OF ok] ok show ?thesis by blast
qed

end
